theory Spec2Isabelle
  imports Main "HOL-Library.Sublist"
begin

section \<open>The download-cache-decompress pipeline of nw-builder (get.js)\<close>

text \<open>
  The embedded source is the module that exports \<open>get\<close> and defines \<open>getNwjs\<close>,
  \<open>getFfmpeg\<close> and \<open>getNodeHeaders\<close>. Every function of it is asynchronous and works on
  the file system and the network, so a run is modelled as the list of effects it
  performs (its trace), the way its promise settles, and the file system it leaves.
  The environment (what the network answers, what an archive holds, which operations
  fail) is an explicit argument.
\<close>

subsection \<open>Paths: \<open>resolve\<close> and \<open>dirname\<close> of node:path (POSIX flavour)\<close>

type_synonym path = string

text \<open>The segments of a path between its separators.\<close>

fun segments :: "string \<Rightarrow> string list" where
  "segments [] = [[]]"
| "segments (c # cs) =
     (if c = CHR ''/'' then [] # segments cs
      else (case segments cs of [] \<Rightarrow> [[c]] | s # ss \<Rightarrow> (c # s) # ss))"

text \<open>
  Normalisation keeps a stack of segments, the innermost first: empty segments and
  \<open>.\<close> are dropped, \<open>..\<close> pops (and is dropped at the root).
\<close>

definition pushSegment :: "string \<Rightarrow> string list \<Rightarrow> string list" where
  "pushSegment s st =
     (if s = [] \<or> s = ''.'' then st
      else if s = ''..'' then tl st
      else s # st)"

definition pushPath :: "string \<Rightarrow> string list \<Rightarrow> string list" where
  "pushPath a st = fold pushSegment (segments a) (if take 1 a = ''/'' then [] else st)"

fun joinSegments :: "string list \<Rightarrow> string" where
  "joinSegments [] = []"
| "joinSegments [s] = s"
| "joinSegments (s # t # ss) = s @ ''/'' @ joinSegments (t # ss)"

definition render :: "string list \<Rightarrow> path" where
  "render st = ''/'' @ joinSegments (rev st)"

text \<open>
  \<open>resolve cwd args\<close> is \<open>path.resolve(...args)\<close> in a process whose working directory
  is \<open>cwd\<close>: an absolute argument restarts the path, the others are appended, and the
  result is normalised and absolute.
\<close>

definition resolve :: "path \<Rightarrow> string list \<Rightarrow> path" where
  "resolve wd args = render (fold pushPath args (pushPath wd []))"

definition dirname :: "path \<Rightarrow> path" where
  "dirname p = render (tl (pushPath p []))"

definition endsWith :: "string \<Rightarrow> string \<Rightarrow> bool" where
  "endsWith s x = suffix x s"

text \<open>A single path segment that normalisation keeps as it is.\<close>

definition plain :: "string \<Rightarrow> bool" where
  "plain n = (CHR ''/'' \<notin> set n \<and> n \<noteq> [] \<and> n \<noteq> ''.'' \<and> n \<noteq> ''..'')"

subsection \<open>Options\<close>

text \<open>
  The options object of \<open>get\<close>. \<open>nativeAddon\<close> is \<open>false\<close> (here \<open>None\<close>) or a string.
  The defaults of the destructuring patterns come from the host tables of util.js and
  are not modelled: every field is given.
\<close>

record GetOptions =
  version :: string
  flavor :: string
  platform :: string
  arch :: string
  downloadUrl :: string
  cacheDir :: string
  cache :: bool
  ffmpeg :: bool
  nativeAddon :: "string option"

subsection \<open>Names, cache paths and URLs\<close>

text \<open>The template \<open>nwjs${flavor === "sdk" ? "-sdk" : ""}-v${version}-${platform}-${arch}\<close>.\<close>

definition nwjsName :: "GetOptions \<Rightarrow> string" where
  "nwjsName opts =
     ''nwjs'' @ (if flavor opts = ''sdk'' then ''-sdk'' else '''') @ ''-v'' @ version opts
       @ ''-'' @ platform opts @ ''-'' @ arch opts"

definition nwjsExt :: "GetOptions \<Rightarrow> string" where
  "nwjsExt opts = (if platform opts = ''linux'' then ''tar.gz'' else ''zip'')"

definition nwjsFile :: "GetOptions \<Rightarrow> string" where
  "nwjsFile opts = nwjsName opts @ ''.'' @ nwjsExt opts"

definition ffmpegFile :: "GetOptions \<Rightarrow> string" where
  "ffmpegFile opts =
     ''ffmpeg-v'' @ version opts @ ''-'' @ platform opts @ ''-'' @ arch opts @ ''.zip''"

definition headersFile :: "GetOptions \<Rightarrow> string" where
  "headersFile opts =
     ''headers-v'' @ version opts @ ''-'' @ platform opts @ ''-'' @ arch opts @ ''.tar.gz''"

definition nodeName :: "GetOptions \<Rightarrow> string" where
  "nodeName opts = ''node-v'' @ version opts @ ''-'' @ platform opts @ ''-'' @ arch opts"

text \<open>The constant \<open>out\<close> of each of the three functions, and the runtime directory.\<close>

definition nwjsOut :: "path \<Rightarrow> GetOptions \<Rightarrow> path" where
  "nwjsOut wd opts = resolve wd [cacheDir opts, nwjsFile opts]"

definition nwDir :: "path \<Rightarrow> GetOptions \<Rightarrow> path" where
  "nwDir wd opts = resolve wd [cacheDir opts, nwjsName opts]"

definition ffmpegOut :: "path \<Rightarrow> GetOptions \<Rightarrow> path" where
  "ffmpegOut wd opts = resolve wd [cacheDir opts, ffmpegFile opts]"

definition headersOut :: "path \<Rightarrow> GetOptions \<Rightarrow> path" where
  "headersOut wd opts = resolve wd [cacheDir opts, headersFile opts]"

definition nodeDir :: "path \<Rightarrow> GetOptions \<Rightarrow> path" where
  "nodeDir wd opts = resolve wd [cacheDir opts, nodeName opts]"

datatype artifactKind = Runtime | Codec | Headers

text \<open>
  The archive path of an artifact kind: the three \<open>out\<close> computations seen as one
  function of the kind.
\<close>

fun locate :: "path \<Rightarrow> GetOptions \<Rightarrow> artifactKind \<Rightarrow> path" where
  "locate wd opts Runtime = nwjsOut wd opts"
| "locate wd opts Codec = ffmpegOut wd opts"
| "locate wd opts Headers = headersOut wd opts"

text \<open>The file name of the archive, the last argument of \<open>resolve\<close> in \<open>out\<close>.\<close>

fun archiveFile :: "GetOptions \<Rightarrow> artifactKind \<Rightarrow> string" where
  "archiveFile opts Runtime = nwjsFile opts"
| "archiveFile opts Codec = ffmpegFile opts"
| "archiveFile opts Headers = headersFile opts"

text \<open>
  The URL of the runtime archive: \<open>let url = ""\<close>, assigned only when \<open>downloadUrl\<close> is
  one of three literals.
\<close>

definition nwjsUrl :: "GetOptions \<Rightarrow> string" where
  "nwjsUrl opts =
     (if downloadUrl opts = ''https://dl.nwjs.io''
         \<or> downloadUrl opts = ''https://npm.taobao.org/mirrors/nwjs''
         \<or> downloadUrl opts = ''https://npmmirror.com/mirrors/nwjs''
      then downloadUrl opts @ ''/v'' @ version opts @ ''/'' @ nwjsName opts @ ''.'' @ nwjsExt opts
      else '''')"

definition ffmpegUrl :: "GetOptions \<Rightarrow> string" where
  "ffmpegUrl opts =
     ''https://github.com/nwjs-ffmpeg-prebuilt/nwjs-ffmpeg-prebuilt/releases/download''
       @ ''/'' @ version opts @ ''/'' @ version opts @ ''-'' @ platform opts @ ''-'' @ arch opts
       @ ''.zip''"

text \<open>\<open>urlBase\<close> ends with a slash and the template adds one.\<close>

definition headersUrl :: "GetOptions \<Rightarrow> string" where
  "headersUrl opts =
     ''https://dl.nwjs.io/'' @ ''/v'' @ version opts @ ''/nw-headers-v'' @ version opts
       @ ''.tar.gz''"

subsection \<open>Effects, outcomes and the environment\<close>

text \<open>
  How a promise ends. \<open>Uncaught\<close> is an exception that no promise receives: an
  \<open>error\<close> event emitted on an object that has no \<open>error\<close> listener, or a throw inside
  an event callback. \<open>Pending\<close> is a promise that never settles.
\<close>

datatype outcome = Resolved | Rejected string | Uncaught string | Pending

text \<open>The effects a run performs, in order. A JavaScript \<open>undefined\<close> URL is \<open>None\<close>.\<close>

datatype event =
    Rm path
  | Uncompress string path string
  | CreateWriteStream path
  | GetRequest "string option"
  | BarStart "nat option"
  | BarIncrement
  | BarUpdate nat
  | BarStop
  | Pipe path
  | YauzlOpen path
  | ZipClose path
  | Mkdir path
  | OpenReadStream string
  | ConsoleError "string option"
  | Rename path path
  | Exec string
  | ReplaceFfmpeg string path

text \<open>What a response stream emits after its listeners are attached.\<close>

datatype chunk_event = Data nat | StreamError string | End

record response =
  location :: "string option"
  contentLength :: "nat option"
  body :: "chunk_event list"

text \<open>
  What \<open>getRequest(url, callback)\<close> does: it throws at once (an invalid URL), the
  request object emits \<open>error\<close> (no listener is ever attached to it), or the callback
  receives a response.
\<close>

datatype reply = Throws string | RequestError string | Response response

text \<open>An entry of a zip archive as yauzl yields it, and what goes wrong reading it.\<close>

datatype entry_fault = NoFault | OpenFails string | ReadFails string

record entry =
  filename :: string
  fault :: entry_fault

record env =
  PLATFORM :: string
  cwd :: path
  net :: "string option \<Rightarrow> reply"
  archive :: "path \<Rightarrow> string + entry list"
  writeFault :: "path \<Rightarrow> string option"
  mkdirFault :: "path \<Rightarrow> string option"
  execError :: "string \<Rightarrow> string option"

text \<open>
  \<open>archive E p\<close> is what the archive stored at \<open>p\<close> holds once it is there (\<open>Inl\<close>: it
  cannot be read as an archive). \<open>writeFault E p\<close> is the error that the write stream
  created for \<open>p\<close> emits, if any. \<open>execError E c\<close> is the error that the callback of
  \<open>exec(c, ...)\<close> receives (\<open>None\<close> is \<open>null\<close>).
\<close>

record run =
  trace :: "event list"
  outcome :: outcome
  files :: "path list"

definition skip :: "path list \<Rightarrow> run" where
  "skip fs = \<lparr>trace = [], outcome = Resolved, files = fs\<rparr>"

text \<open>\<open>await r; k\<close>: the continuation runs only when \<open>r\<close> resolved.\<close>

definition andThen :: "run \<Rightarrow> (path list \<Rightarrow> run) \<Rightarrow> run" where
  "andThen r k =
     (case outcome r of
        Resolved \<Rightarrow> (let r' = k (files r) in r'\<lparr>trace := trace r @ trace r'\<rparr>)
      | _ \<Rightarrow> r)"

subsection \<open>The file system\<close>

text \<open>
  The file system is the list of the paths that were created; a directory exists when
  it or something below it is in the list.
\<close>

definition within :: "path \<Rightarrow> path \<Rightarrow> bool" where
  "within p q = (q = p \<or> prefix (p @ ''/'') q)"

definition existsSync :: "path \<Rightarrow> path list \<Rightarrow> bool" where
  "existsSync p fs = list_ex (within p) fs"

text \<open>\<open>rm(p, {recursive: true, force: true})\<close>: succeeds also when nothing is there.\<close>

definition rm :: "path \<Rightarrow> path list \<Rightarrow> run" where
  "rm p fs = \<lparr>trace = [Rm p], outcome = Resolved, files = filter (\<lambda>q. \<not> within p q) fs\<rparr>"

text \<open>\<open>mkdir(p, {recursive: true})\<close>.\<close>

definition mkdir :: "env \<Rightarrow> path \<Rightarrow> path list \<Rightarrow> run" where
  "mkdir E p fs =
     (case mkdirFault E p of
        Some x \<Rightarrow> \<lparr>trace = [Mkdir p], outcome = Rejected x, files = fs\<rparr>
      | None \<Rightarrow> \<lparr>trace = [Mkdir p], outcome = Resolved, files = List.insert p fs\<rparr>)"

text \<open>
  \<open>rename(src, dst)\<close>: fails when the source is missing or the destination is a
  directory that is not empty.
\<close>

definition rename :: "path \<Rightarrow> path \<Rightarrow> path list \<Rightarrow> run" where
  "rename src dst fs =
     (if \<not> existsSync src fs
      then \<lparr>trace = [Rename src dst], outcome = Rejected ''ENOENT'', files = fs\<rparr>
      else if list_ex (prefix (dst @ ''/'')) fs
      then \<lparr>trace = [Rename src dst], outcome = Rejected ''ENOTEMPTY'', files = fs\<rparr>
      else \<lparr>trace = [Rename src dst], outcome = Resolved,
            files = map (\<lambda>q. if within src q then dst @ drop (length src) q else q)
                      (filter (\<lambda>q. q \<noteq> dst) fs)\<rparr>)"

text \<open>
  \<open>compressing[fmt].uncompress(src, dest)\<close>, the bulk strategy: every entry of the
  archive is written below \<open>dest\<close>.
\<close>

definition uncompress :: "env \<Rightarrow> string \<Rightarrow> path \<Rightarrow> string \<Rightarrow> path list \<Rightarrow> run" where
  "uncompress E fmt src dest fs =
     (case archive E src of
        Inl x \<Rightarrow> \<lparr>trace = [Uncompress fmt src dest], outcome = Rejected x, files = fs\<rparr>
      | Inr es \<Rightarrow>
          \<lparr>trace = [Uncompress fmt src dest], outcome = Resolved,
           files = List.union (map (\<lambda>e. resolve (cwd E) [dest, filename e]) es) fs\<rparr>)"

text \<open>\<open>compressing[platform === "linux" ? "tgz" : "zip"]\<close>.\<close>

definition nwjsFormat :: "GetOptions \<Rightarrow> string" where
  "nwjsFormat opts = (if platform opts = ''linux'' then ''tgz'' else ''zip'')"

subsection \<open>Fetching\<close>

text \<open>
  The listeners of the response that is piped to the file: \<open>data\<close> counts and updates
  the bar, \<open>error\<close> rejects, \<open>end\<close> stops the bar and resolves. The promise settles
  once; a response that emits neither \<open>end\<close> nor \<open>error\<close> leaves it pending.
\<close>

fun consume :: "nat \<Rightarrow> chunk_event list \<Rightarrow> event list \<times> outcome" where
  "consume chunks [] = ([], Pending)"
| "consume chunks (Data n # es) =
     (case consume (chunks + n) es of
        (t, oc) \<Rightarrow> (BarIncrement # BarUpdate (chunks + n) # t, oc))"
| "consume chunks (StreamError x # es) = ([], Rejected x)"
| "consume chunks (End # es) = ([BarStop], Resolved)"

text \<open>
  The callback of the request whose response is downloaded: \<open>bar.start\<close>, the three
  listeners, \<open>response.pipe(stream)\<close>.
\<close>

definition download :: "path \<Rightarrow> response \<Rightarrow> event list \<times> outcome" where
  "download out r =
     (case consume 0 (body r) of
        (t, oc) \<Rightarrow> (BarStart (contentLength r) # Pipe out # t, oc))"

text \<open>
  The inner \<open>getRequest(url, ...)\<close>, called from inside the callback of the first one:
  a throw there reaches no promise.
\<close>

definition innerRequest :: "env \<Rightarrow> path \<Rightarrow> string option \<Rightarrow> event list \<times> outcome" where
  "innerRequest E out url =
     (case net E url of
        Throws x \<Rightarrow> ([GetRequest url], Uncaught x)
      | RequestError x \<Rightarrow> ([GetRequest url], Uncaught x)
      | Response r \<Rightarrow> (case download out r of (t, oc) \<Rightarrow> (GetRequest url # t, oc)))"

text \<open>The file that \<open>createWriteStream(p)\<close> leaves: it is created unless the stream fails.\<close>

definition createWriteStream :: "env \<Rightarrow> path \<Rightarrow> path list \<Rightarrow> path list" where
  "createWriteStream E p fs = (case writeFault E p of None \<Rightarrow> List.insert p fs | Some x \<Rightarrow> fs)"

text \<open>
  \<open>createWriteStream(out)\<close> followed by the promise \<open>request\<close> of \<open>getNwjs\<close> and
  \<open>getFfmpeg\<close>: two nested requests. \<open>redirect\<close> says whether the URL of the second is
  replaced by \<open>response.headers.location\<close>. The first request is made inside the
  promise executor, so a throw there rejects. No \<open>error\<close> listener is attached to
  \<open>stream\<close>: when the stream fails the error is uncaught. The first response is
  never read; an \<open>error\<close> event on it is not modelled.
\<close>

definition fetch2 :: "env \<Rightarrow> path \<Rightarrow> string \<Rightarrow> bool \<Rightarrow> path list \<Rightarrow> run" where
  "fetch2 E out url redirect fs =
     (case net E (Some url) of
        Throws x \<Rightarrow>
          \<lparr>trace = [CreateWriteStream out, GetRequest (Some url)], outcome = Rejected x,
           files = createWriteStream E out fs\<rparr>
      | RequestError x \<Rightarrow>
          \<lparr>trace = [CreateWriteStream out, GetRequest (Some url)], outcome = Uncaught x,
           files = createWriteStream E out fs\<rparr>
      | Response r1 \<Rightarrow>
          (case writeFault E out of
             Some x \<Rightarrow>
               \<lparr>trace = [CreateWriteStream out, GetRequest (Some url)], outcome = Uncaught x,
                files = createWriteStream E out fs\<rparr>
           | None \<Rightarrow>
               (case innerRequest E out (if redirect then location r1 else Some url) of
                  (t, oc) \<Rightarrow>
                    \<lparr>trace = CreateWriteStream out # GetRequest (Some url) # t, outcome = oc,
                     files = createWriteStream E out fs\<rparr>)))"

text \<open>The promise \<open>request\<close> of \<open>getNodeHeaders\<close>: one request.\<close>

definition fetch1 :: "env \<Rightarrow> path \<Rightarrow> string \<Rightarrow> path list \<Rightarrow> run" where
  "fetch1 E out url fs =
     (case net E (Some url) of
        Throws x \<Rightarrow>
          \<lparr>trace = [CreateWriteStream out, GetRequest (Some url)], outcome = Rejected x,
           files = createWriteStream E out fs\<rparr>
      | RequestError x \<Rightarrow>
          \<lparr>trace = [CreateWriteStream out, GetRequest (Some url)], outcome = Uncaught x,
           files = createWriteStream E out fs\<rparr>
      | Response r \<Rightarrow>
          (case writeFault E out of
             Some x \<Rightarrow>
               \<lparr>trace = [CreateWriteStream out, GetRequest (Some url)], outcome = Uncaught x,
                files = createWriteStream E out fs\<rparr>
           | None \<Rightarrow>
               (case download out r of
                  (t, oc) \<Rightarrow>
                    \<lparr>trace = CreateWriteStream out # GetRequest (Some url) # t, outcome = oc,
                     files = createWriteStream E out fs\<rparr>)))"

text \<open>
  In \<open>getNwjs\<close> the location header replaces the URL for two of the three accepted
  download servers.
\<close>

definition followsRedirect :: "GetOptions \<Rightarrow> bool" where
  "followsRedirect opts =
     (downloadUrl opts = ''https://npm.taobao.org/mirrors/nwjs''
      \<or> downloadUrl opts = ''https://npmmirror.com/mirrors/nwjs'')"

subsection \<open>The entry walk of \<open>getNwjs\<close>\<close>

text \<open>
  The body of the \<open>for await\<close> loop for one entry. A rejected \<open>await\<close> is a throw, which
  leaves the loop. Both streams of a file entry have an \<open>error\<close> listener that rejects.
\<close>

definition extractEntry :: "env \<Rightarrow> GetOptions \<Rightarrow> entry \<Rightarrow> path list \<Rightarrow> run" where
  "extractEntry E opts e fs =
     (let fullEntryPath = resolve (cwd E) [cacheDir opts, filename e] in
      if endsWith (filename e) ''/'' then mkdir E fullEntryPath fs
      else
        andThen (mkdir E (dirname fullEntryPath) fs) (\<lambda>fs.
          case fault e of
            OpenFails x \<Rightarrow>
              \<lparr>trace = [OpenReadStream (filename e)], outcome = Rejected x, files = fs\<rparr>
          | _ \<Rightarrow>
              (case writeFault E fullEntryPath of
                 Some x \<Rightarrow>
                   \<lparr>trace = [OpenReadStream (filename e), CreateWriteStream fullEntryPath],
                    outcome = Rejected x, files = fs\<rparr>
               | None \<Rightarrow>
                   (case fault e of
                      ReadFails x \<Rightarrow>
                        \<lparr>trace = [OpenReadStream (filename e), CreateWriteStream fullEntryPath],
                         outcome = Rejected x, files = List.insert fullEntryPath fs\<rparr>
                    | _ \<Rightarrow>
                        \<lparr>trace = [OpenReadStream (filename e), CreateWriteStream fullEntryPath],
                         outcome = Resolved, files = List.insert fullEntryPath fs\<rparr>))))"

fun walk :: "env \<Rightarrow> GetOptions \<Rightarrow> entry list \<Rightarrow> path list \<Rightarrow> run" where
  "walk E opts [] fs = skip fs"
| "walk E opts (e # es) fs = andThen (extractEntry E opts e fs) (walk E opts es)"

text \<open>
  \<open>yauzl.open(out)\<close>, then \<open>try { loop } catch (e) { console.error(e) } finally
  { await zip.close() }\<close>. The \<open>try\<close> encloses the whole loop. \<open>yauzl.open\<close> is outside
  it.
\<close>

definition entryWalk :: "env \<Rightarrow> GetOptions \<Rightarrow> path \<Rightarrow> path list \<Rightarrow> run" where
  "entryWalk E opts out fs =
     (case archive E out of
        Inl x \<Rightarrow> \<lparr>trace = [YauzlOpen out], outcome = Rejected x, files = fs\<rparr>
      | Inr es \<Rightarrow>
          (let r = walk E opts es fs in
           case outcome r of
             Rejected x \<Rightarrow>
               \<lparr>trace = YauzlOpen out # trace r @ [ConsoleError (Some x), ZipClose out],
                outcome = Resolved, files = files r\<rparr>
           | oc \<Rightarrow>
               \<lparr>trace = YauzlOpen out # trace r @ [ZipClose out], outcome = oc,
                files = files r\<rparr>))"

subsection \<open>The three pipelines and \<open>get\<close>\<close>

definition getNwjs :: "env \<Rightarrow> GetOptions \<Rightarrow> path list \<Rightarrow> run" where
  "getNwjs E opts fs =
     (let out = nwjsOut (cwd E) opts in
      andThen (if \<not> cache opts then rm out fs else skip fs) (\<lambda>fs.
        if existsSync out fs then
          andThen (rm (nwDir (cwd E) opts) fs)
            (uncompress E (nwjsFormat opts) out (cacheDir opts))
        else
          andThen (fetch2 E out (nwjsUrl opts) (followsRedirect opts) fs) (\<lambda>fs.
            andThen (rm (nwDir (cwd E) opts) fs) (\<lambda>fs.
              if platform opts = ''osx'' \<and> PLATFORM E = ''darwin''
              then entryWalk E opts out fs
              else uncompress E (nwjsFormat opts) out (cacheDir opts) fs))))"

text \<open>
  \<open>replaceFfmpeg\<close> is imported from util.js; only the call is recorded. In \<open>getFfmpeg\<close>
  the location header always replaces the URL.
\<close>

definition replaceFfmpeg :: "string \<Rightarrow> path \<Rightarrow> path list \<Rightarrow> run" where
  "replaceFfmpeg plat dir fs =
     \<lparr>trace = [ReplaceFfmpeg plat dir], outcome = Resolved, files = fs\<rparr>"

definition getFfmpeg :: "env \<Rightarrow> GetOptions \<Rightarrow> path list \<Rightarrow> run" where
  "getFfmpeg E opts fs =
     (let out = ffmpegOut (cwd E) opts in
      andThen (if \<not> cache opts then rm out fs else skip fs) (\<lambda>fs.
        if existsSync out fs then uncompress E ''zip'' out (nwDir (cwd E) opts) fs
        else
          andThen (fetch2 E out (ffmpegUrl opts) True fs) (\<lambda>fs.
            andThen (uncompress E ''zip'' out (nwDir (cwd E) opts) fs)
              (replaceFfmpeg (platform opts) (nwDir (cwd E) opts)))))"

text \<open>
  The command line of the patch. \<open>exec\<close> is not awaited; its callback logs its
  argument, also when that is \<open>null\<close>.
\<close>

definition patchCommand :: "env \<Rightarrow> GetOptions \<Rightarrow> string" where
  "patchCommand E opts =
     ''patch '' @ resolve (cwd E) [cacheDir opts, nodeName opts, ''common.gypi'']
       @ '' '' @ resolve (cwd E) [''..'', ''..'', ''patches'', ''node_header.patch'']"

definition exec :: "env \<Rightarrow> string \<Rightarrow> path list \<Rightarrow> run" where
  "exec E cmd fs =
     \<lparr>trace = [Exec cmd, ConsoleError (execError E cmd)], outcome = Resolved, files = fs\<rparr>"

definition getNodeHeaders :: "env \<Rightarrow> GetOptions \<Rightarrow> path list \<Rightarrow> run" where
  "getNodeHeaders E opts fs =
     (let out = headersOut (cwd E) opts in
      andThen (if \<not> cache opts then rm out fs else skip fs) (\<lambda>fs.
        if existsSync out fs then
          andThen (uncompress E ''tgz'' out (cacheDir opts) fs) (\<lambda>fs.
            andThen (rm (nodeDir (cwd E) opts) fs) (\<lambda>fs.
              andThen
                (rename (resolve (cwd E) [cacheDir opts, ''node'']) (nodeDir (cwd E) opts) fs)
                (exec E (patchCommand E opts))))
        else
          andThen (fetch1 E out (headersUrl opts) fs) (\<lambda>fs.
            andThen (uncompress E ''tgz'' out (cacheDir opts) fs)
              (rename (resolve (cwd E) [cacheDir opts, ''node'']) (nodeDir (cwd E) opts)))))"

definition get :: "env \<Rightarrow> GetOptions \<Rightarrow> path list \<Rightarrow> run" where
  "get E opts fs =
     andThen (getNwjs E opts fs) (\<lambda>fs.
       andThen (if ffmpeg opts then getFfmpeg E opts fs else skip fs) (\<lambda>fs.
         if nativeAddon opts = Some ''gyp'' then getNodeHeaders E opts fs else skip fs))"

text \<open>The pipeline of an artifact kind.\<close>

fun pipeline :: "artifactKind \<Rightarrow> env \<Rightarrow> GetOptions \<Rightarrow> path list \<Rightarrow> run" where
  "pipeline Runtime = getNwjs"
| "pipeline Codec = getFfmpeg"
| "pipeline Headers = getNodeHeaders"

subsection \<open>Reading a trace\<close>

fun requests :: "event list \<Rightarrow> string option list" where
  "requests [] = []"
| "requests (GetRequest u # t) = u # requests t"
| "requests (e # t) = requests t"

text \<open>The effects that start writing the content of an archive to disk.\<close>

fun isExtraction :: "event \<Rightarrow> bool" where
  "isExtraction (Uncompress fmt src dest) = True"
| "isExtraction (YauzlOpen p) = True"
| "isExtraction e = False"

text \<open>
  \<open>cleanedFirst d t\<close>: in \<open>t\<close>, nothing is extracted before the directory \<open>d\<close> is
  removed.
\<close>

fun cleanedFirst :: "path \<Rightarrow> event list \<Rightarrow> bool" where
  "cleanedFirst d [] = True"
| "cleanedFirst d (e # t) =
     (if e = Rm d then True else if isExtraction e then False else cleanedFirst d t)"

fun isExec :: "event \<Rightarrow> bool" where
  "isExec (Exec c) = True"
| "isExec e = False"

fun isReplaceFfmpeg :: "event \<Rightarrow> bool" where
  "isReplaceFfmpeg (ReplaceFfmpeg p d) = True"
| "isReplaceFfmpeg e = False"

subsection \<open>Valid targets\<close>

text \<open>
  The values that the type of the options documents for \<open>flavor\<close>, \<open>platform\<close> and
  \<open>arch\<close>; of a version (a semantic version or one of the tags \<open>latest\<close>, \<open>stable\<close>,
  \<open>lts\<close>) only the absence of a path separator is used.
\<close>

definition validTarget :: "GetOptions \<Rightarrow> bool" where
  "validTarget opts =
     (CHR ''/'' \<notin> set (version opts)
      \<and> flavor opts \<in> {''normal'', ''sdk''}
      \<and> platform opts \<in> {''linux'', ''osx'', ''win''}
      \<and> arch opts \<in> {''ia32'', ''x64'', ''arm64''})"

subsection \<open>Concrete runs\<close>

text \<open>The target \<open>0.82.0 / normal / linux / x64\<close> with the default options.\<close>

definition linuxX64 :: GetOptions where
  "linuxX64 =
     \<lparr>version = ''0.82.0'', flavor = ''normal'', platform = ''linux'', arch = ''x64'',
      downloadUrl = ''https://dl.nwjs.io'', cacheDir = ''./cache'', cache = True,
      ffmpeg = False, nativeAddon = None\<rparr>"

definition sdkX64 :: GetOptions where
  "sdkX64 = linuxX64\<lparr>flavor := ''sdk''\<rparr>"

definition osxArm64 :: GetOptions where
  "osxArm64 = linuxX64\<lparr>platform := ''osx'', arch := ''arm64''\<rparr>"

definition withFfmpeg :: GetOptions where
  "withFfmpeg = linuxX64\<lparr>ffmpeg := True\<rparr>"

definition withGyp :: GetOptions where
  "withGyp = linuxX64\<lparr>nativeAddon := Some ''gyp''\<rparr>"

text \<open>The download server of the first example of the documentation of \<open>get\<close>.\<close>

definition fromGithub :: GetOptions where
  "fromGithub =
     linuxX64\<lparr>downloadUrl := ''https://github.com/corwin-of-amber/nw.js/releases/download''\<rparr>"

definition fromMirror :: GetOptions where
  "fromMirror = linuxX64\<lparr>downloadUrl := ''https://npmmirror.com/mirrors/nwjs''\<rparr>"

text \<open>
  A Linux host in \<open>/w\<close>. Every well-formed URL is answered by a response that redirects
  to a CDN and carries three bytes; every archive holds a directory and a file.
\<close>

definition threeBytes :: response where
  "threeBytes =
     \<lparr>location = Some ''https://cdn/x'', contentLength = Some 3, body = [Data 3, End]\<rparr>"

definition answer :: "string option \<Rightarrow> reply" where
  "answer u =
     (if u = None \<or> u = Some [] then Throws ''ERR_INVALID_URL'' else Response threeBytes)"

definition twoEntries :: "entry list" where
  "twoEntries =
     [\<lparr>filename = ''node/'', fault = NoFault\<rparr>, \<lparr>filename = ''node/a'', fault = NoFault\<rparr>]"

definition hostLinux :: env where
  "hostLinux =
     \<lparr>PLATFORM = ''linux'', cwd = ''/w'', net = answer, archive = (\<lambda>p. Inr twoEntries),
      writeFault = (\<lambda>p. None), mkdirFault = (\<lambda>p. None), execError = (\<lambda>c. None)\<rparr>"

text \<open>The same host when the cache directory does not exist: no file can be created.\<close>

definition hostNoCacheDir :: env where
  "hostNoCacheDir = hostLinux\<lparr>writeFault := (\<lambda>p. Some ''ENOENT'')\<rparr>"

text \<open>A macOS host; the first entry of every archive cannot be decompressed.\<close>

definition brokenFirst :: "entry list" where
  "brokenFirst =
     [\<lparr>filename = ''a'', fault = ReadFails ''bad''\<rparr>, \<lparr>filename = ''b'', fault = NoFault\<rparr>]"

definition hostDarwin :: env where
  "hostDarwin = hostLinux\<lparr>PLATFORM := ''darwin'', archive := (\<lambda>p. Inr brokenFirst)\<rparr>"

section \<open>Properties\<close>

subsection \<open>Traces of the steps\<close>

lemma requests_append: "requests (xs @ ys) = requests xs @ requests ys"
  by (induction xs rule: requests.induct) simp_all

lemma trace_andThen:
  "trace (andThen r k) = (if outcome r = Resolved then trace r @ trace (k (files r)) else trace r)"
  by (simp add: andThen_def Let_def split: outcome.splits)

lemma outcome_andThen:
  "outcome (andThen r k) = (if outcome r = Resolved then outcome (k (files r)) else outcome r)"
  by (simp add: andThen_def Let_def split: outcome.splits)

lemma files_andThen:
  "files (andThen r k) = (if outcome r = Resolved then files (k (files r)) else files r)"
  by (simp add: andThen_def Let_def split: outcome.splits)

lemma run_skip: "trace (skip fs) = []" "outcome (skip fs) = Resolved" "files (skip fs) = fs"
  by (simp_all add: skip_def)

lemma run_rm: "trace (rm p fs) = [Rm p]" "outcome (rm p fs) = Resolved"
  by (simp_all add: rm_def)

lemma trace_uncompress: "trace (uncompress E fmt src dest fs) = [Uncompress fmt src dest]"
  by (simp add: uncompress_def split: sum.splits)

lemma trace_rename: "trace (rename src dst fs) = [Rename src dst]"
  by (simp add: rename_def)

lemma run_exec:
  "trace (exec E cmd fs) = [Exec cmd, ConsoleError (execError E cmd)]"
  "outcome (exec E cmd fs) = Resolved"
  by (simp_all add: exec_def)

lemma run_replaceFfmpeg:
  "trace (replaceFfmpeg p d fs) = [ReplaceFfmpeg p d]"
  "outcome (replaceFfmpeg p d fs) = Resolved"
  by (simp_all add: replaceFfmpeg_def)

lemmas run_simps = trace_andThen outcome_andThen run_skip run_rm trace_uncompress trace_rename
  run_exec run_replaceFfmpeg

lemma not_exists_after_rm: "\<not> existsSync p (files (rm p fs))"
  by (simp add: existsSync_def rm_def list_ex_iff)

subsection \<open>The requests of a run\<close>

lemma requests_consume: "requests (fst (consume n es)) = []"
  by (induction n es rule: consume.induct) (auto split: prod.splits)

lemma requests_download: "requests (fst (download out r)) = []"
  using requests_consume [of 0 "body r"]
  by (auto simp: download_def split: prod.splits)

lemma requests_fetch1:
  "set (requests (trace (fetch1 E out url fs))) \<subseteq> {Some url}"
proof (cases "net E (Some url)")
  case (Response r)
  show ?thesis
  proof (cases "writeFault E out")
    case None
    obtain t oc where d: "download out r = (t, oc)" by (cases "download out r")
    with requests_download [of out r] have "requests t = []" by simp
    with Response None d show ?thesis by (simp add: fetch1_def)
  next
    case (Some x)
    with Response show ?thesis by (simp add: fetch1_def)
  qed
qed (simp_all add: fetch1_def)

lemma requests_getNodeHeaders:
  "set (requests (trace (getNodeHeaders E opts fs))) \<subseteq> {Some (headersUrl opts)}"
  using requests_fetch1 [of E "headersOut (cwd E) opts" "headersUrl opts"]
  by (simp add: getNodeHeaders_def Let_def run_simps requests_append)

text \<open>
  Claim C10. Whatever the environment, the file system, the platform and the
  architecture, every request of the headers pipeline goes to one URL, which is built
  from the version alone; two runs for the same version therefore download from the
  identical URL, although their cache paths differ.
\<close>

theorem headers_url_ignores_platform_and_arch:
  assumes "version o1 = version o2"
    and "u1 \<in> set (requests (trace (getNodeHeaders E1 o1 fs1)))"
    and "u2 \<in> set (requests (trace (getNodeHeaders E2 o2 fs2)))"
  shows "u1 = u2 \<and>
    u1 = Some (''https://dl.nwjs.io//v'' @ version o1 @ ''/nw-headers-v'' @ version o1
                @ ''.tar.gz'')"
proof -
  from assms(2) requests_getNodeHeaders [of E1 o1 fs1] have "u1 = Some (headersUrl o1)"
    by blast
  moreover from assms(3) requests_getNodeHeaders [of E2 o2 fs2]
  have "u2 = Some (headersUrl o2)"
    by blast
  ultimately show ?thesis
    using assms(1) by (simp add: headersUrl_def)
qed

theorem headers_url_ignores_platform_and_arch_witness:
  "version linuxX64 = version osxArm64
   \<and> Some ''https://dl.nwjs.io//v0.82.0/nw-headers-v0.82.0.tar.gz''
        \<in> set (requests (trace (getNodeHeaders hostLinux linuxX64 [])))
   \<and> Some ''https://dl.nwjs.io//v0.82.0/nw-headers-v0.82.0.tar.gz''
        \<in> set (requests (trace (getNodeHeaders hostLinux osxArm64 [])))
   \<and> headersOut (cwd hostLinux) linuxX64 \<noteq> headersOut (cwd hostLinux) osxArm64"
proof -
  have v: "version linuxX64 = version osxArm64"
    by code_simp
  have a: "Some ''https://dl.nwjs.io//v0.82.0/nw-headers-v0.82.0.tar.gz''
        \<in> set (requests (trace (getNodeHeaders hostLinux linuxX64 [])))"
    by code_simp
  have b: "Some ''https://dl.nwjs.io//v0.82.0/nw-headers-v0.82.0.tar.gz''
        \<in> set (requests (trace (getNodeHeaders hostLinux osxArm64 [])))"
    by code_simp
  have c: "headersOut (cwd hostLinux) linuxX64 \<noteq> headersOut (cwd hostLinux) osxArm64"
    by code_simp
  from headers_url_ignores_platform_and_arch [OF v a b] v a b c show ?thesis
    by blast
qed

text \<open>
  Claim C3. For each of the three artifact kinds: when \<open>cache\<close> is true and the
  archive exists at its cache path, the pipeline issues no request and opens no write
  stream on the archive; it uncompresses the archive that is there.
\<close>

theorem cache_hit_issues_no_request:
  assumes "cache opts" and "existsSync (locate (cwd E) opts k) fs"
  shows "requests (trace (pipeline k E opts fs)) = []
    \<and> CreateWriteStream (locate (cwd E) opts k) \<notin> set (trace (pipeline k E opts fs))
    \<and> (\<exists>fmt dest.
          Uncompress fmt (locate (cwd E) opts k) dest \<in> set (trace (pipeline k E opts fs)))"
proof (cases k)
  case Runtime
  with assms show ?thesis
    by (simp add: getNwjs_def Let_def run_simps)
next
  case Codec
  with assms show ?thesis
    by (simp add: getFfmpeg_def Let_def run_simps)
next
  case Headers
  with assms show ?thesis
    by (simp add: getNodeHeaders_def Let_def run_simps)
qed

theorem cache_hit_issues_no_request_witness:
  "cache linuxX64
   \<and> existsSync (locate (cwd hostLinux) linuxX64 Headers)
        [''/w/cache/headers-v0.82.0-linux-x64.tar.gz'']
   \<and> requests (trace (pipeline Headers hostLinux linuxX64
        [''/w/cache/headers-v0.82.0-linux-x64.tar.gz''])) = []"
proof -
  have a: "cache linuxX64"
    by code_simp
  have b: "existsSync (locate (cwd hostLinux) linuxX64 Headers)
        [''/w/cache/headers-v0.82.0-linux-x64.tar.gz'']"
    by code_simp
  from cache_hit_issues_no_request [OF a b] a b show ?thesis
    by simp
qed

lemma requests_innerRequest: "requests (fst (innerRequest E out u)) = [u]"
proof (cases "net E u")
  case (Response r)
  obtain t oc where d: "download out r = (t, oc)" by (cases "download out r")
  with requests_download [of out r] have "requests t = []" by simp
  with Response d show ?thesis by (simp add: innerRequest_def)
qed (simp_all add: innerRequest_def)

lemma requests_fetch2:
  assumes "net E (Some url) = Response r1" and "writeFault E out = None"
  shows "requests (trace (fetch2 E out url redirect fs))
    = [Some url, if redirect then location r1 else Some url]"
proof -
  obtain t oc where i: "innerRequest E out (if redirect then location r1 else Some url) = (t, oc)"
    by (cases "innerRequest E out (if redirect then location r1 else Some url)")
  with requests_innerRequest [of E out "if redirect then location r1 else Some url"]
  have "requests t = [if redirect then location r1 else Some url]" by simp
  with assms i show ?thesis by (simp add: fetch2_def)
qed

lemma requests_mkdir: "requests (trace (mkdir E p fs)) = []"
  by (simp add: mkdir_def split: option.splits)

lemma requests_extractEntry: "requests (trace (extractEntry E opts e fs)) = []"
  by (simp add: extractEntry_def Let_def trace_andThen requests_append requests_mkdir
      split: entry_fault.splits option.splits)

lemma requests_walk: "requests (trace (walk E opts es fs)) = []"
  by (induction es arbitrary: fs)
    (simp_all add: run_skip trace_andThen requests_append requests_extractEntry)

lemma requests_entryWalk: "requests (trace (entryWalk E opts out fs)) = []"
  by (simp add: entryWalk_def Let_def requests_append requests_walk
      split: sum.splits outcome.splits)

lemma requests_getNwjs_miss:
  assumes miss: "\<not> cache opts \<or> \<not> existsSync (nwjsOut (cwd E) opts) fs"
    and first: "net E (Some (nwjsUrl opts)) = Response r1"
    and stream: "writeFault E (nwjsOut (cwd E) opts) = None"
  shows "requests (trace (getNwjs E opts fs))
    = [Some (nwjsUrl opts), if followsRedirect opts then location r1 else Some (nwjsUrl opts)]"
proof -
  let ?out = "nwjsOut (cwd E) opts"
  let ?r0 = "if \<not> cache opts then rm ?out fs else skip fs"
  have r0: "outcome ?r0 = Resolved" "requests (trace ?r0) = []"
    by (simp_all add: run_simps)
  have absent: "\<not> existsSync ?out (files ?r0)"
    using miss not_exists_after_rm [of ?out fs] by (auto simp: run_skip)
  show ?thesis
    using r0 absent requests_fetch2 [OF first stream]
    by (simp add: getNwjs_def Let_def run_simps requests_append requests_entryWalk)
qed

text \<open>
  Claim C7. A run of the runtime pipeline that fetches (the archive is not cached, or
  \<open>cache\<close> is false), whose first request is answered by a response and whose
  destination stream opens, issues exactly two requests. For the two mirror hosts the
  second goes to the \<open>location\<close> header of the first response; for the default host
  \<open>https://dl.nwjs.io\<close> it goes to the constructed URL again.
\<close>

theorem runtime_fetch_follows_one_redirect:
  assumes miss: "\<not> cache opts \<or> \<not> existsSync (nwjsOut (cwd E) opts) fs"
    and first: "net E (Some (nwjsUrl opts)) = Response r1"
    and stream: "writeFault E (nwjsOut (cwd E) opts) = None"
  shows "(downloadUrl opts = ''https://npm.taobao.org/mirrors/nwjs''
            \<or> downloadUrl opts = ''https://npmmirror.com/mirrors/nwjs''
          \<longrightarrow> requests (trace (getNwjs E opts fs)) = [Some (nwjsUrl opts), location r1])
    \<and> (downloadUrl opts = ''https://dl.nwjs.io''
          \<longrightarrow> requests (trace (getNwjs E opts fs)) = [Some (nwjsUrl opts), Some (nwjsUrl opts)])"
  using requests_getNwjs_miss [OF miss first stream]
  by (auto simp: followsRedirect_def)

theorem runtime_fetch_follows_one_redirect_witness:
  "requests (trace (getNwjs hostLinux fromMirror [])) =
     [Some ''https://npmmirror.com/mirrors/nwjs/v0.82.0/nwjs-v0.82.0-linux-x64.tar.gz'',
      Some ''https://cdn/x'']
   \<and> requests (trace (getNwjs hostLinux linuxX64 [])) =
     [Some ''https://dl.nwjs.io/v0.82.0/nwjs-v0.82.0-linux-x64.tar.gz'',
      Some ''https://dl.nwjs.io/v0.82.0/nwjs-v0.82.0-linux-x64.tar.gz'']"
proof -
  have m1: "\<not> cache fromMirror \<or> \<not> existsSync (nwjsOut (cwd hostLinux) fromMirror) []"
    by code_simp
  have f1: "net hostLinux (Some (nwjsUrl fromMirror)) = Response threeBytes"
    by code_simp
  have s1: "writeFault hostLinux (nwjsOut (cwd hostLinux) fromMirror) = None"
    by code_simp
  have d1: "downloadUrl fromMirror = ''https://npmmirror.com/mirrors/nwjs''"
    by code_simp
  have u1: "nwjsUrl fromMirror
      = ''https://npmmirror.com/mirrors/nwjs/v0.82.0/nwjs-v0.82.0-linux-x64.tar.gz''"
    by code_simp
  have l: "location threeBytes = Some ''https://cdn/x''"
    by code_simp
  have m2: "\<not> cache linuxX64 \<or> \<not> existsSync (nwjsOut (cwd hostLinux) linuxX64) []"
    by code_simp
  have f2: "net hostLinux (Some (nwjsUrl linuxX64)) = Response threeBytes"
    by code_simp
  have s2: "writeFault hostLinux (nwjsOut (cwd hostLinux) linuxX64) = None"
    by code_simp
  have d2: "downloadUrl linuxX64 = ''https://dl.nwjs.io''"
    by code_simp
  have u2: "nwjsUrl linuxX64 = ''https://dl.nwjs.io/v0.82.0/nwjs-v0.82.0-linux-x64.tar.gz''"
    by code_simp
  from runtime_fetch_follows_one_redirect [OF m1 f1 s1] d1 u1 l
    runtime_fetch_follows_one_redirect [OF m2 f2 s2] d2 u2
  show ?thesis by simp
qed

subsection \<open>Runs that show a defect\<close>

text \<open>
  Claim C4. The claim asks for the patch on every run of the headers pipeline. On a
  fresh fetch (the archive is not in the cache) the run resolves after the rename: no
  \<open>exec\<close> is ever called. Only the branch for a cached archive calls it.
\<close>

theorem headers_fresh_fetch_ends_without_patch:
  "\<not> existsSync (headersOut (cwd hostLinux) withGyp) []
   \<and> trace (getNodeHeaders hostLinux withGyp []) =
      [CreateWriteStream ''/w/cache/headers-v0.82.0-linux-x64.tar.gz'',
       GetRequest (Some ''https://dl.nwjs.io//v0.82.0/nw-headers-v0.82.0.tar.gz''),
       BarStart (Some 3), Pipe ''/w/cache/headers-v0.82.0-linux-x64.tar.gz'',
       BarIncrement, BarUpdate 3, BarStop,
       Uncompress ''tgz'' ''/w/cache/headers-v0.82.0-linux-x64.tar.gz'' ''./cache'',
       Rename ''/w/cache/node'' ''/w/cache/node-v0.82.0-linux-x64'']
   \<and> outcome (getNodeHeaders hostLinux withGyp []) = Resolved
   \<and> \<not> list_ex isExec (trace (getNodeHeaders hostLinux withGyp []))"
  by code_simp

text \<open>
  Claim C5. The claim asks for the relocation on every path of the codec pipeline.
  When both archives are cached, \<open>get\<close> with \<open>ffmpeg = true\<close> runs the runtime pipeline,
  then uncompresses the codec archive into the runtime directory and returns:
  \<open>replaceFfmpeg\<close> is not called. It is called when the codec archive has to be
  fetched.
\<close>

theorem codec_cache_hit_skips_relocation:
  "trace (get hostLinux withFfmpeg
      [''/w/cache/nwjs-v0.82.0-linux-x64.tar.gz'', ''/w/cache/ffmpeg-v0.82.0-linux-x64.zip'']) =
     [Rm ''/w/cache/nwjs-v0.82.0-linux-x64'',
      Uncompress ''tgz'' ''/w/cache/nwjs-v0.82.0-linux-x64.tar.gz'' ''./cache'',
      Uncompress ''zip'' ''/w/cache/ffmpeg-v0.82.0-linux-x64.zip''
        ''/w/cache/nwjs-v0.82.0-linux-x64'']
   \<and> outcome (get hostLinux withFfmpeg
      [''/w/cache/nwjs-v0.82.0-linux-x64.tar.gz'', ''/w/cache/ffmpeg-v0.82.0-linux-x64.zip''])
     = Resolved
   \<and> \<not> list_ex isReplaceFfmpeg (trace (get hostLinux withFfmpeg
      [''/w/cache/nwjs-v0.82.0-linux-x64.tar.gz'', ''/w/cache/ffmpeg-v0.82.0-linux-x64.zip'']))
   \<and> list_ex isReplaceFfmpeg (trace (get hostLinux withFfmpeg
      [''/w/cache/nwjs-v0.82.0-linux-x64.tar.gz'']))"
  by code_simp

text \<open>
  Claim C6. The claim asks that every configured \<open>downloadUrl\<close> be the base of the
  URL that is fetched. For the download server of the documentation's own example
  (unofficial macOS builds on GitHub) the URL stays the empty string, and the request
  for it fails.
\<close>

theorem documented_download_server_gives_empty_url:
  "nwjsUrl fromGithub = []
   \<and> \<not> prefix (downloadUrl fromGithub) (nwjsUrl fromGithub)
   \<and> trace (getNwjs hostLinux fromGithub []) =
       [CreateWriteStream ''/w/cache/nwjs-v0.82.0-linux-x64.tar.gz'', GetRequest (Some [])]
   \<and> outcome (getNwjs hostLinux fromGithub []) = Rejected ''ERR_INVALID_URL''"
  by code_simp

text \<open>
  Claim C8. The claim asks that a failure of the destination stream reject the fetch.
  When the file cannot be written (here the cache directory is missing), none of the
  three fetches rejects: the stream has no \<open>error\<close> listener, and the error is
  uncaught.
\<close>

theorem write_failure_is_not_a_rejection:
  "outcome (getNwjs hostNoCacheDir linuxX64 []) = Uncaught ''ENOENT''
   \<and> outcome (getFfmpeg hostNoCacheDir linuxX64 []) = Uncaught ''ENOENT''
   \<and> outcome (getNodeHeaders hostNoCacheDir linuxX64 []) = Uncaught ''ENOENT''
   \<and> outcome (getNwjs hostNoCacheDir linuxX64 []) \<noteq> Rejected ''ENOENT''"
  by code_simp

subsection \<open>Removal before extraction\<close>

lemma quiet_consume: "list_all (\<lambda>e. \<not> isExtraction e) (fst (consume n es))"
  by (induction n es rule: consume.induct) (auto split: prod.splits)

lemma quiet_download: "list_all (\<lambda>e. \<not> isExtraction e) (fst (download out r))"
  using quiet_consume [of 0 "body r"]
  by (auto simp: download_def split: prod.splits)

lemma quiet_innerRequest: "list_all (\<lambda>e. \<not> isExtraction e) (fst (innerRequest E out u))"
proof (cases "net E u")
  case (Response r)
  obtain t oc where d: "download out r = (t, oc)" by (cases "download out r")
  with quiet_download [of out r] have "list_all (\<lambda>e. \<not> isExtraction e) t" by simp
  with Response d show ?thesis by (simp add: innerRequest_def)
qed (simp_all add: innerRequest_def)

lemma quiet_fetch2: "list_all (\<lambda>e. \<not> isExtraction e) (trace (fetch2 E out url redirect fs))"
proof (cases "net E (Some url)")
  case (Response r1)
  show ?thesis
  proof (cases "writeFault E out")
    case None
    obtain t oc where i: "innerRequest E out (if redirect then location r1 else Some url) = (t, oc)"
      by (cases "innerRequest E out (if redirect then location r1 else Some url)")
    with quiet_innerRequest [of E out "if redirect then location r1 else Some url"]
    have "list_all (\<lambda>e. \<not> isExtraction e) t" by simp
    with Response None i show ?thesis by (simp add: fetch2_def)
  next
    case (Some x)
    with Response show ?thesis by (simp add: fetch2_def)
  qed
qed (simp_all add: fetch2_def)

lemma cleanedFirst_append:
  "list_all (\<lambda>e. \<not> isExtraction e) xs \<Longrightarrow> cleanedFirst d ys \<Longrightarrow> cleanedFirst d (xs @ ys)"
  by (induction xs) simp_all

lemma cleanedFirst_quiet: "list_all (\<lambda>e. \<not> isExtraction e) xs \<Longrightarrow> cleanedFirst d xs"
  using cleanedFirst_append [of xs d "[]"] by simp

lemma entryWalk_extracts: "list_ex isExtraction (trace (entryWalk E opts out fs))"
  by (simp add: entryWalk_def Let_def split: sum.splits outcome.splits)

lemma getNwjs_cleanedFirst:
  "cleanedFirst (nwDir (cwd E) opts) (trace (getNwjs E opts fs))"
proof -
  let ?out = "nwjsOut (cwd E) opts"
  let ?d = "nwDir (cwd E) opts"
  let ?r0 = "if \<not> cache opts then rm ?out fs else skip fs"
  let ?f = "fetch2 E ?out (nwjsUrl opts) (followsRedirect opts) (files ?r0)"
  have r0: "outcome ?r0 = Resolved" "list_all (\<lambda>e. \<not> isExtraction e) (trace ?r0)"
    by (simp_all add: run_simps)
  have qf: "list_all (\<lambda>e. \<not> isExtraction e) (trace ?r0 @ trace ?f)"
    using r0(2) quiet_fetch2 [of E ?out "nwjsUrl opts" "followsRedirect opts" "files ?r0"]
    by simp
  show ?thesis
  proof (cases "existsSync ?out (files ?r0)")
    case True
    have "trace (getNwjs E opts fs)
        = trace ?r0 @ [Rm ?d, Uncompress (nwjsFormat opts) ?out (cacheDir opts)]"
      using r0(1) True by (simp add: getNwjs_def Let_def run_simps)
    with r0(2) show ?thesis
      by (simp add: cleanedFirst_append)
  next
    case False
    show ?thesis
    proof (cases "outcome ?f = Resolved")
      case True
      have "\<exists>ys. trace (getNwjs E opts fs) = (trace ?r0 @ trace ?f) @ Rm ?d # ys"
        using r0(1) \<open>\<not> existsSync ?out (files ?r0)\<close> True
        by (simp add: getNwjs_def Let_def run_simps)
      then obtain ys where "trace (getNwjs E opts fs) = (trace ?r0 @ trace ?f) @ Rm ?d # ys" ..
      with qf show ?thesis
        by (simp add: cleanedFirst_append del: append_assoc)
    next
      case nr: False
      have "trace (getNwjs E opts fs) = trace ?r0 @ trace ?f"
        using r0(1) False nr by (simp add: getNwjs_def Let_def run_simps)
      with qf show ?thesis
        by (simp add: cleanedFirst_quiet)
    qed
  qed
qed

lemma getNwjs_resolved_extracts:
  assumes "outcome (getNwjs E opts fs) = Resolved"
  shows "Rm (nwDir (cwd E) opts) \<in> set (trace (getNwjs E opts fs))
    \<and> list_ex isExtraction (trace (getNwjs E opts fs))"
  using assms entryWalk_extracts [of E opts "nwjsOut (cwd E) opts"]
  by (simp add: getNwjs_def Let_def run_simps split: if_splits)

lemma files_rm: "set (files (rm p fs)) = {q \<in> set fs. \<not> within p q}"
  by (auto simp: rm_def)

lemma uncompress_fs:
  "set (files (uncompress E fmt src dest fs)) = set (files (uncompress E fmt src dest [])) \<union> set fs"
  by (auto simp: uncompress_def split: sum.splits)

lemma extractEntry_fs:
  "outcome (extractEntry E opts e fs) = outcome (extractEntry E opts e [])"
  "set (files (extractEntry E opts e fs)) = set (files (extractEntry E opts e [])) \<union> set fs"
  by (auto simp: extractEntry_def Let_def andThen_def mkdir_def
      split: option.splits entry_fault.splits)

lemma walk_fs:
  "outcome (walk E opts es fs) = outcome (walk E opts es [])
   \<and> set (files (walk E opts es fs)) = set (files (walk E opts es [])) \<union> set fs"
proof (induction es arbitrary: fs)
  case Nil
  show ?case by (simp add: run_skip)
next
  case (Cons e es)
  from Cons.IH [of "files (extractEntry E opts e fs)"]
    Cons.IH [of "files (extractEntry E opts e [])"]
    extractEntry_fs [of E opts e fs]
  show ?case
    by (auto simp: outcome_andThen files_andThen)
qed

lemma entryWalk_fs:
  "set (files (entryWalk E opts out fs)) = set (files (entryWalk E opts out [])) \<union> set fs"
proof (cases "archive E out")
  case (Inl x)
  then show ?thesis by (simp add: entryWalk_def)
next
  case (Inr es)
  from walk_fs [of E opts es fs] have
    o: "outcome (walk E opts es fs) = outcome (walk E opts es [])" and
    f: "set (files (walk E opts es fs)) = set (files (walk E opts es [])) \<union> set fs"
    by simp_all
  show ?thesis
    using Inr f by (simp add: entryWalk_def Let_def o split: outcome.splits)
qed

lemma extraction_iff_not_quiet:
  "list_ex isExtraction t \<longleftrightarrow> \<not> list_all (\<lambda>e. \<not> isExtraction e) t"
  by (simp add: list_ex_iff list_all_iff)

lemma getNwjs_leaves_nothing_stale:
  assumes ex: "list_ex isExtraction (trace (getNwjs E opts fs))"
    and q: "q \<in> set (files (getNwjs E opts fs))"
    and w: "within (nwDir (cwd E) opts) q"
  shows "q \<in> set (files (uncompress E (nwjsFormat opts) (nwjsOut (cwd E) opts) (cacheDir opts) []))
    \<or> q \<in> set (files (entryWalk E opts (nwjsOut (cwd E) opts) []))"
proof -
  let ?out = "nwjsOut (cwd E) opts"
  let ?d = "nwDir (cwd E) opts"
  let ?r0 = "if \<not> cache opts then rm ?out fs else skip fs"
  let ?f = "fetch2 E ?out (nwjsUrl opts) (followsRedirect opts) (files ?r0)"
  have r0: "outcome ?r0 = Resolved" "list_all (\<lambda>e. \<not> isExtraction e) (trace ?r0)"
    by (simp_all add: run_simps)
  show ?thesis
  proof (cases "existsSync ?out (files ?r0)")
    case True
    have "files (getNwjs E opts fs)
        = files (uncompress E (nwjsFormat opts) ?out (cacheDir opts) (files (rm ?d (files ?r0))))"
      using r0(1) True by (simp add: getNwjs_def Let_def run_simps files_andThen)
    with q w uncompress_fs [of E "nwjsFormat opts" ?out "cacheDir opts" "files (rm ?d (files ?r0))"]
    show ?thesis
      by (auto simp: files_rm)
  next
    case False
    show ?thesis
    proof (cases "outcome ?f = Resolved")
      case True
      have "files (getNwjs E opts fs)
          = (if platform opts = ''osx'' \<and> PLATFORM E = ''darwin''
             then files (entryWalk E opts ?out (files (rm ?d (files ?f))))
             else files (uncompress E (nwjsFormat opts) ?out (cacheDir opts)
                    (files (rm ?d (files ?f)))))"
        using r0(1) False True by (simp add: getNwjs_def Let_def run_simps files_andThen)
      with q w uncompress_fs [of E "nwjsFormat opts" ?out "cacheDir opts" "files (rm ?d (files ?f))"]
        entryWalk_fs [of E opts ?out "files (rm ?d (files ?f))"]
      show ?thesis
        by (auto simp: files_rm split: if_splits)
    next
      case nr: False
      have "trace (getNwjs E opts fs) = trace ?r0 @ trace ?f"
        using r0(1) False nr by (simp add: getNwjs_def Let_def run_simps)
      with ex r0(2) quiet_fetch2 [of E ?out "nwjsUrl opts" "followsRedirect opts" "files ?r0"]
      show ?thesis
        by (simp add: extraction_iff_not_quiet)
    qed
  qed
qed


text \<open>
  Claim C1, as stated, fails for the codec: with the codec archive cached, the pipeline
  performs one effect, the uncompress into the runtime directory. Nothing is removed, and
  a file that was in the runtime directory before is still there.
\<close>

theorem codec_extraction_removes_nothing:
  "trace (getFfmpeg hostLinux linuxX64 [''/w/cache/ffmpeg-v0.82.0-linux-x64.zip'',
       ''/w/cache/nwjs-v0.82.0-linux-x64/lib/libffmpeg.so'']) =
     [Uncompress ''zip'' ''/w/cache/ffmpeg-v0.82.0-linux-x64.zip''
        ''/w/cache/nwjs-v0.82.0-linux-x64'']
   \<and> \<not> cleanedFirst (nwDir (cwd hostLinux) linuxX64)
        (trace (getFfmpeg hostLinux linuxX64 [''/w/cache/ffmpeg-v0.82.0-linux-x64.zip'',
           ''/w/cache/nwjs-v0.82.0-linux-x64/lib/libffmpeg.so'']))
   \<and> ''/w/cache/nwjs-v0.82.0-linux-x64/lib/libffmpeg.so''
        \<in> set (files (getFfmpeg hostLinux linuxX64 [''/w/cache/ffmpeg-v0.82.0-linux-x64.zip'',
           ''/w/cache/nwjs-v0.82.0-linux-x64/lib/libffmpeg.so'']))"
  by code_simp

text \<open>
  Claim C1, amended. For the runtime artifact, on every path (cache hit, cache miss, bulk
  extraction or entry walk) nothing is extracted before the extracted runtime directory
  has been removed recursively; every run that resolves did remove it and did extract;
  and once extraction has begun, every path that exists in or below the runtime
  directory was written by the extraction itself, so nothing of a previous extraction
  is left.
\<close>

theorem runtime_extraction_is_clean:
  "cleanedFirst (nwDir (cwd E) opts) (trace (getNwjs E opts fs))
   \<and> (outcome (getNwjs E opts fs) = Resolved \<longrightarrow>
        Rm (nwDir (cwd E) opts) \<in> set (trace (getNwjs E opts fs))
        \<and> list_ex isExtraction (trace (getNwjs E opts fs)))
   \<and> (list_ex isExtraction (trace (getNwjs E opts fs)) \<longrightarrow>
        (\<forall>q \<in> set (files (getNwjs E opts fs)). within (nwDir (cwd E) opts) q \<longrightarrow>
           q \<in> set (files (uncompress E (nwjsFormat opts) (nwjsOut (cwd E) opts)
                  (cacheDir opts) []))
           \<or> q \<in> set (files (entryWalk E opts (nwjsOut (cwd E) opts) []))))"
  using getNwjs_cleanedFirst [of E opts fs] getNwjs_resolved_extracts [of E opts fs]
    getNwjs_leaves_nothing_stale [of E opts fs]
  by blast

theorem runtime_extraction_is_clean_witness:
  "outcome (getNwjs hostLinux linuxX64
      [''/w/cache/nwjs-v0.82.0-linux-x64.tar.gz'', ''/w/cache/nwjs-v0.82.0-linux-x64/old'']) = Resolved
   \<and> cleanedFirst ''/w/cache/nwjs-v0.82.0-linux-x64'' (trace (getNwjs hostLinux linuxX64
      [''/w/cache/nwjs-v0.82.0-linux-x64.tar.gz'', ''/w/cache/nwjs-v0.82.0-linux-x64/old'']))
   \<and> Rm ''/w/cache/nwjs-v0.82.0-linux-x64'' \<in> set (trace (getNwjs hostLinux linuxX64
      [''/w/cache/nwjs-v0.82.0-linux-x64.tar.gz'', ''/w/cache/nwjs-v0.82.0-linux-x64/old'']))
   \<and> existsSync ''/w/cache/nwjs-v0.82.0-linux-x64''
      [''/w/cache/nwjs-v0.82.0-linux-x64.tar.gz'', ''/w/cache/nwjs-v0.82.0-linux-x64/old'']
   \<and> ''/w/cache/nwjs-v0.82.0-linux-x64/old'' \<notin> set (files (getNwjs hostLinux linuxX64
      [''/w/cache/nwjs-v0.82.0-linux-x64.tar.gz'', ''/w/cache/nwjs-v0.82.0-linux-x64/old'']))
   \<and> ''/w/cache/nwjs-v0.82.0-linux-x64/old'' \<notin> set (files (getNwjs hostLinux
      (linuxX64\<lparr>cache := False\<rparr>)
      [''/w/cache/nwjs-v0.82.0-linux-x64.tar.gz'', ''/w/cache/nwjs-v0.82.0-linux-x64/old'']))"
proof -
  let ?fs = "[''/w/cache/nwjs-v0.82.0-linux-x64.tar.gz'', ''/w/cache/nwjs-v0.82.0-linux-x64/old'']"
  let ?nc = "linuxX64\<lparr>cache := False\<rparr>"
  have a: "outcome (getNwjs hostLinux linuxX64 ?fs) = Resolved"
    by code_simp
  have a': "outcome (getNwjs hostLinux ?nc ?fs) = Resolved"
    by code_simp
  have b: "nwDir (cwd hostLinux) linuxX64 = ''/w/cache/nwjs-v0.82.0-linux-x64''"
    "nwDir (cwd hostLinux) ?nc = ''/w/cache/nwjs-v0.82.0-linux-x64''"
    by code_simp+
  have e: "existsSync ''/w/cache/nwjs-v0.82.0-linux-x64'' ?fs"
    by code_simp
  have w: "within ''/w/cache/nwjs-v0.82.0-linux-x64'' ''/w/cache/nwjs-v0.82.0-linux-x64/old''"
    by code_simp
  have n: "''/w/cache/nwjs-v0.82.0-linux-x64/old''
      \<notin> set (files (uncompress hostLinux (nwjsFormat linuxX64) (nwjsOut (cwd hostLinux) linuxX64)
              (cacheDir linuxX64) []))"
    "''/w/cache/nwjs-v0.82.0-linux-x64/old''
      \<notin> set (files (entryWalk hostLinux linuxX64 (nwjsOut (cwd hostLinux) linuxX64) []))"
    "''/w/cache/nwjs-v0.82.0-linux-x64/old''
      \<notin> set (files (uncompress hostLinux (nwjsFormat ?nc) (nwjsOut (cwd hostLinux) ?nc)
              (cacheDir ?nc) []))"
    "''/w/cache/nwjs-v0.82.0-linux-x64/old''
      \<notin> set (files (entryWalk hostLinux ?nc (nwjsOut (cwd hostLinux) ?nc) []))"
    by code_simp+
  from runtime_extraction_is_clean [of hostLinux linuxX64 ?fs]
    runtime_extraction_is_clean [of hostLinux ?nc ?fs] a a' b e w n
  show ?thesis
    by auto
qed

subsection \<open>The entry walk\<close>

lemma walk_stops:
  assumes "outcome (walk E opts pre fs) = Resolved"
    and "outcome (extractEntry E opts e (files (walk E opts pre fs))) = Rejected x"
  shows "trace (walk E opts (pre @ e # post) fs)
      = trace (walk E opts pre fs) @ trace (extractEntry E opts e (files (walk E opts pre fs)))
    \<and> outcome (walk E opts (pre @ e # post) fs) = Rejected x
    \<and> files (walk E opts (pre @ e # post) fs)
      = files (extractEntry E opts e (files (walk E opts pre fs)))"
  using assms
proof (induction pre arbitrary: fs)
  case Nil
  then show ?case
    by (simp add: run_skip trace_andThen outcome_andThen files_andThen)
next
  case (Cons a pre)
  from Cons.prems(1) have a: "outcome (extractEntry E opts a fs) = Resolved"
    by (simp add: outcome_andThen split: if_splits)
  with Cons.prems have
    "outcome (walk E opts pre (files (extractEntry E opts a fs))) = Resolved"
    "outcome (extractEntry E opts e (files (walk E opts pre (files (extractEntry E opts a fs)))))
      = Rejected x"
    by (simp_all add: outcome_andThen files_andThen)
  from Cons.IH [OF this] a show ?case
    by (simp add: trace_andThen outcome_andThen files_andThen)
qed

text \<open>
  Claim C2, as stated, fails: on a macOS host, with an archive whose first entry cannot
  be decompressed, the error is logged and the archive is closed, but the second entry
  is never opened and its file is never written.
\<close>

theorem entry_walk_skips_later_entries:
  "archive hostDarwin ''/w/cache/nwjs-v0.82.0-osx-arm64.zip''
     = Inr [\<lparr>filename = ''a'', fault = ReadFails ''bad''\<rparr>, \<lparr>filename = ''b'', fault = NoFault\<rparr>]
   \<and> trace (getNwjs hostDarwin osxArm64 []) =
      [CreateWriteStream ''/w/cache/nwjs-v0.82.0-osx-arm64.zip'',
       GetRequest (Some ''https://dl.nwjs.io/v0.82.0/nwjs-v0.82.0-osx-arm64.zip''),
       GetRequest (Some ''https://dl.nwjs.io/v0.82.0/nwjs-v0.82.0-osx-arm64.zip''),
       BarStart (Some 3), Pipe ''/w/cache/nwjs-v0.82.0-osx-arm64.zip'',
       BarIncrement, BarUpdate 3, BarStop,
       Rm ''/w/cache/nwjs-v0.82.0-osx-arm64'',
       YauzlOpen ''/w/cache/nwjs-v0.82.0-osx-arm64.zip'', Mkdir ''/w/cache'',
       OpenReadStream ''a'', CreateWriteStream ''/w/cache/a'',
       ConsoleError (Some ''bad''),
       ZipClose ''/w/cache/nwjs-v0.82.0-osx-arm64.zip'']
   \<and> OpenReadStream ''b'' \<notin> set (trace (getNwjs hostDarwin osxArm64 []))
   \<and> \<not> existsSync ''/w/cache/b'' (files (getNwjs hostDarwin osxArm64 []))"
  by code_simp

text \<open>
  Claim C2, amended. In the entry walk, when the entries before \<open>e\<close> are extracted and
  the extraction of \<open>e\<close> fails with \<open>x\<close>, the walk performs the effects of those entries
  and of \<open>e\<close> up to its failure, logs \<open>x\<close>, closes the archive and resolves. It performs
  nothing for the entries after \<open>e\<close>: the walk stops at the failing entry.
\<close>

theorem entry_walk_logs_closes_and_stops:
  assumes "archive E out = Inr (pre @ e # post)"
    and "outcome (walk E opts pre fs) = Resolved"
    and "outcome (extractEntry E opts e (files (walk E opts pre fs))) = Rejected x"
  shows "trace (entryWalk E opts out fs)
      = YauzlOpen out # trace (walk E opts pre fs)
          @ trace (extractEntry E opts e (files (walk E opts pre fs)))
          @ [ConsoleError (Some x), ZipClose out]
    \<and> outcome (entryWalk E opts out fs) = Resolved"
  using assms(1) walk_stops [OF assms(2,3), of post]
  by (simp add: entryWalk_def Let_def)

theorem entry_walk_logs_closes_and_stops_witness:
  "trace (entryWalk hostDarwin osxArm64 ''/w/cache/nwjs-v0.82.0-osx-arm64.zip'' []) =
     [YauzlOpen ''/w/cache/nwjs-v0.82.0-osx-arm64.zip'', Mkdir ''/w/cache'',
      OpenReadStream ''a'', CreateWriteStream ''/w/cache/a'',
      ConsoleError (Some ''bad''), ZipClose ''/w/cache/nwjs-v0.82.0-osx-arm64.zip'']
   \<and> outcome (entryWalk hostDarwin osxArm64 ''/w/cache/nwjs-v0.82.0-osx-arm64.zip'' [])
     = Resolved"
proof -
  have a: "archive hostDarwin ''/w/cache/nwjs-v0.82.0-osx-arm64.zip''
      = Inr ([] @ \<lparr>filename = ''a'', fault = ReadFails ''bad''\<rparr>
               # [\<lparr>filename = ''b'', fault = NoFault\<rparr>])"
    by code_simp
  have b: "outcome (walk hostDarwin osxArm64 [] []) = Resolved"
    by code_simp
  have c: "outcome (extractEntry hostDarwin osxArm64 \<lparr>filename = ''a'', fault = ReadFails ''bad''\<rparr>
      (files (walk hostDarwin osxArm64 [] []))) = Rejected ''bad''"
    by code_simp
  have d: "trace (walk hostDarwin osxArm64 [] []) = []"
    by code_simp
  have e: "trace (extractEntry hostDarwin osxArm64 \<lparr>filename = ''a'', fault = ReadFails ''bad''\<rparr>
      (files (walk hostDarwin osxArm64 [] [])))
    = [Mkdir ''/w/cache'', OpenReadStream ''a'', CreateWriteStream ''/w/cache/a'']"
    by code_simp
  from entry_walk_logs_closes_and_stops [OF a b c] d e show ?thesis
    by simp
qed

subsection \<open>Cache paths\<close>

lemma segments_plain: "CHR ''/'' \<notin> set s \<Longrightarrow> segments s = [s]"
  by (induction s) auto

lemma pushPath_plain: "plain n \<Longrightarrow> pushPath n st = n # st"
  by (cases n) (auto simp: plain_def pushPath_def pushSegment_def segments_plain)

lemma joinSegments_snoc:
  "joinSegments (xs @ [n]) = (if xs = [] then n else joinSegments xs @ ''/'' @ n)"
  by (induction xs rule: joinSegments.induct) simp_all

lemma resolve_plain:
  "plain n \<Longrightarrow> resolve wd [d, n] =
     (if pushPath d (pushPath wd []) = [] then ''/'' @ n
      else render (pushPath d (pushPath wd [])) @ ''/'' @ n)"
  by (simp add: resolve_def render_def pushPath_plain joinSegments_snoc)

lemma resolve_inj:
  assumes "plain n1" and "plain n2" and "resolve wd [d, n1] = resolve wd [d, n2]"
  shows "n1 = n2"
  using assms by (simp add: resolve_plain split: if_splits)

lemma ext_inj:
  assumes "X1 \<in> {''tar.gz'', ''zip''}" and "X2 \<in> {''tar.gz'', ''zip''}"
    and "U1 @ ''.'' @ X1 = U2 @ ''.'' @ X2"
  shows "U1 = U2 \<and> X1 = X2"
proof -
  from assms(3) have "rev (U1 @ ''.'' @ X1) = rev (U2 @ ''.'' @ X2)"
    by (rule arg_cong)
  with assms(1,2) show ?thesis
    by (elim insertE emptyE; simp)
qed

lemma arch_inj:
  assumes "A1 \<in> {''ia32'', ''x64'', ''arm64''}" and "A2 \<in> {''ia32'', ''x64'', ''arm64''}"
    and "U1 @ ''-'' @ A1 = U2 @ ''-'' @ A2"
  shows "U1 = U2 \<and> A1 = A2"
proof -
  from assms(3) have "rev (U1 @ ''-'' @ A1) = rev (U2 @ ''-'' @ A2)"
    by (rule arg_cong)
  with assms(1,2) show ?thesis
    by (elim insertE emptyE; simp)
qed

lemma platform_inj:
  assumes "P1 \<in> {''linux'', ''osx'', ''win''}" and "P2 \<in> {''linux'', ''osx'', ''win''}"
    and "U1 @ ''-'' @ P1 = U2 @ ''-'' @ P2"
  shows "U1 = U2 \<and> P1 = P2"
proof -
  from assms(3) have "rev (U1 @ ''-'' @ P1) = rev (U2 @ ''-'' @ P2)"
    by (rule arg_cong)
  with assms(1,2) show ?thesis
    by (elim insertE emptyE; simp)
qed

lemma tail_inj:
  assumes "P1 \<in> {''linux'', ''osx'', ''win''}" and "P2 \<in> {''linux'', ''osx'', ''win''}"
    and "A1 \<in> {''ia32'', ''x64'', ''arm64''}" and "A2 \<in> {''ia32'', ''x64'', ''arm64''}"
    and "X1 \<in> {''tar.gz'', ''zip''}" and "X2 \<in> {''tar.gz'', ''zip''}"
    and "V1 @ ''-'' @ P1 @ ''-'' @ A1 @ ''.'' @ X1 = V2 @ ''-'' @ P2 @ ''-'' @ A2 @ ''.'' @ X2"
  shows "V1 = V2 \<and> P1 = P2 \<and> A1 = A2 \<and> X1 = X2"
proof -
  from assms(7) have "(V1 @ ''-'' @ P1 @ ''-'' @ A1) @ ''.'' @ X1
      = (V2 @ ''-'' @ P2 @ ''-'' @ A2) @ ''.'' @ X2"
    by simp
  from ext_inj [OF assms(5,6) this]
  have x: "X1 = X2" and "(V1 @ ''-'' @ P1) @ ''-'' @ A1 = (V2 @ ''-'' @ P2) @ ''-'' @ A2"
    by simp_all
  from arch_inj [OF assms(3,4) this(2)]
  have a: "A1 = A2" and "V1 @ ''-'' @ P1 = V2 @ ''-'' @ P2"
    by simp_all
  from platform_inj [OF assms(1,2) this(2)] x a show ?thesis
    by simp
qed


lemma plainI: "CHR ''/'' \<notin> set n \<Longrightarrow> 3 \<le> length n \<Longrightarrow> plain n"
  by (auto simp: plain_def)

lemma platform_no_slash: "P \<in> {''linux'', ''osx'', ''win''} \<Longrightarrow> CHR ''/'' \<notin> set P"
  by (elim insertE emptyE; simp)

lemma arch_no_slash: "A \<in> {''ia32'', ''x64'', ''arm64''} \<Longrightarrow> CHR ''/'' \<notin> set A"
  by (elim insertE emptyE; simp)

lemma nwjsExt_cases: "nwjsExt opts \<in> {''tar.gz'', ''zip''}"
  by (simp add: nwjsExt_def)

lemma plain_nwjsFile: "validTarget opts \<Longrightarrow> plain (nwjsFile opts)"
  by (rule plainI)
    (simp_all add: validTarget_def nwjsFile_def nwjsName_def nwjsExt_def platform_no_slash
      arch_no_slash)

lemma plain_ffmpegFile: "validTarget opts \<Longrightarrow> plain (ffmpegFile opts)"
  by (rule plainI)
    (simp_all add: validTarget_def ffmpegFile_def platform_no_slash arch_no_slash)

lemma plain_headersFile: "validTarget opts \<Longrightarrow> plain (headersFile opts)"
  by (rule plainI)
    (simp_all add: validTarget_def headersFile_def platform_no_slash arch_no_slash)

lemma nwjsFile_inj:
  assumes "validTarget o1" and "validTarget o2" and "nwjsFile o1 = nwjsFile o2"
  shows "version o1 = version o2 \<and> flavor o1 = flavor o2 \<and> platform o1 = platform o2
    \<and> arch o1 = arch o2"
proof -
  from assms have f: "flavor o1 = flavor o2"
    by (auto simp: validTarget_def nwjsFile_def nwjsName_def)
  with assms(3) have "version o1 @ ''-'' @ platform o1 @ ''-'' @ arch o1 @ ''.'' @ nwjsExt o1
      = version o2 @ ''-'' @ platform o2 @ ''-'' @ arch o2 @ ''.'' @ nwjsExt o2"
    by (simp add: nwjsFile_def nwjsName_def)
  from tail_inj [OF _ _ _ _ nwjsExt_cases nwjsExt_cases this] assms(1,2) f show ?thesis
    by (simp add: validTarget_def)
qed

lemma ffmpegFile_inj:
  assumes "validTarget o1" and "validTarget o2" and "ffmpegFile o1 = ffmpegFile o2"
  shows "version o1 = version o2 \<and> platform o1 = platform o2 \<and> arch o1 = arch o2"
proof -
  from assms(3) have "version o1 @ ''-'' @ platform o1 @ ''-'' @ arch o1 @ ''.'' @ ''zip''
      = version o2 @ ''-'' @ platform o2 @ ''-'' @ arch o2 @ ''.'' @ ''zip''"
    by (simp add: ffmpegFile_def)
  from tail_inj [OF _ _ _ _ _ _ this] assms(1,2) show ?thesis
    by (simp add: validTarget_def)
qed

lemma headersFile_inj:
  assumes "validTarget o1" and "validTarget o2" and "headersFile o1 = headersFile o2"
  shows "version o1 = version o2 \<and> platform o1 = platform o2 \<and> arch o1 = arch o2"
proof -
  from assms(3) have "version o1 @ ''-'' @ platform o1 @ ''-'' @ arch o1 @ ''.'' @ ''tar.gz''
      = version o2 @ ''-'' @ platform o2 @ ''-'' @ arch o2 @ ''.'' @ ''tar.gz''"
    by (simp add: headersFile_def)
  from tail_inj [OF _ _ _ _ _ _ this] assms(1,2) show ?thesis
    by (simp add: validTarget_def)
qed

lemma locate_archiveFile: "locate wd opts k = resolve wd [cacheDir opts, archiveFile opts k]"
  by (cases k) (simp_all add: nwjsOut_def ffmpegOut_def headersOut_def)

lemma plain_archiveFile: "validTarget opts \<Longrightarrow> plain (archiveFile opts k)"
  by (cases k) (simp_all add: plain_nwjsFile plain_ffmpegFile plain_headersFile)

lemma archiveFile_kind: "archiveFile o1 k1 = archiveFile o2 k2 \<Longrightarrow> k1 = k2"
  by (cases k1; cases k2) (simp_all add: nwjsFile_def nwjsName_def ffmpegFile_def headersFile_def)

text \<open>
  Claim C9, as stated, fails: the codec archive path (and likewise the headers archive
  path) does not contain the flavor, so two valid targets that differ in the flavor
  only are mapped to one path.
\<close>

theorem codec_path_ignores_flavor:
  "validTarget linuxX64 \<and> validTarget sdkX64 \<and> flavor linuxX64 \<noteq> flavor sdkX64
   \<and> (linuxX64, Codec) \<noteq> (sdkX64, Codec)
   \<and> locate ''/w'' linuxX64 Codec = locate ''/w'' sdkX64 Codec"
  by code_simp

text \<open>
  Claim C9, amended. The archive path is a function of the working directory, the cache
  directory, the target and the artifact kind. For valid targets and one cache
  directory, two equal archive paths have the same artifact kind, version, platform and
  architecture, and for the runtime kind the same flavor: paths of distinct kinds never
  collide, the runtime path is injective in the target, and the codec and headers paths
  are injective in the target up to its flavor.
\<close>

theorem locate_injective_up_to_flavor:
  assumes "validTarget o1" and "validTarget o2" and "cacheDir o1 = cacheDir o2"
    and "locate wd o1 k1 = locate wd o2 k2"
  shows "k1 = k2 \<and> version o1 = version o2 \<and> platform o1 = platform o2 \<and> arch o1 = arch o2
    \<and> (k1 = Runtime \<longrightarrow> flavor o1 = flavor o2)
    \<and> locate wd (o1\<lparr>flavor := f\<rparr>) Codec = locate wd o1 Codec
    \<and> locate wd (o1\<lparr>flavor := f\<rparr>) Headers = locate wd o1 Headers"
proof -
  have indep: "locate wd (o1\<lparr>flavor := f\<rparr>) Codec = locate wd o1 Codec"
    "locate wd (o1\<lparr>flavor := f\<rparr>) Headers = locate wd o1 Headers"
    by (simp_all add: ffmpegOut_def ffmpegFile_def headersOut_def headersFile_def)
  from assms(3,4) have "resolve wd [cacheDir o1, archiveFile o1 k1]
      = resolve wd [cacheDir o1, archiveFile o2 k2]"
    by (simp add: locate_archiveFile)
  with plain_archiveFile [OF assms(1), of k1] plain_archiveFile [OF assms(2), of k2]
  have eq: "archiveFile o1 k1 = archiveFile o2 k2"
    by (rule resolve_inj)
  then have k: "k1 = k2"
    by (rule archiveFile_kind)
  show ?thesis
  proof (cases k1)
    case Runtime
    with eq k nwjsFile_inj [OF assms(1,2)] indep show ?thesis by simp
  next
    case Codec
    with eq k ffmpegFile_inj [OF assms(1,2)] indep show ?thesis by simp
  next
    case Headers
    with eq k headersFile_inj [OF assms(1,2)] indep show ?thesis by simp
  qed
qed

theorem locate_injective_up_to_flavor_witness:
  "validTarget linuxX64 \<and> cacheDir linuxX64 = cacheDir linuxX64
   \<and> locate ''/w'' linuxX64 Runtime = ''/w/cache/nwjs-v0.82.0-linux-x64.tar.gz''
   \<and> locate ''/w'' linuxX64 Runtime \<noteq> locate ''/w'' sdkX64 Runtime
   \<and> locate ''/w'' linuxX64 Runtime \<noteq> locate ''/w'' linuxX64 Headers"
proof -
  have v: "validTarget linuxX64" "validTarget sdkX64"
    by code_simp+
  have c: "cacheDir linuxX64 = cacheDir sdkX64" "cacheDir linuxX64 = cacheDir linuxX64"
    by code_simp+
  have f: "flavor linuxX64 \<noteq> flavor sdkX64"
    by code_simp
  have l: "locate ''/w'' linuxX64 Runtime = ''/w/cache/nwjs-v0.82.0-linux-x64.tar.gz''"
    by code_simp
  from locate_injective_up_to_flavor [OF v(1) v(2) c(1), of "''/w''" Runtime Runtime]
    locate_injective_up_to_flavor [OF v(1) v(1) c(2), of "''/w''" Runtime Headers] v c f l
  show ?thesis
    by auto
qed

end
